theory Spec2Isabelle
  imports Main
begin

section \<open>The haproxy operator charm: data model\<close>

text \<open>
  The embedding follows \<^verbatim>\<open>src/charm.py\<close>. The charm object reads facts from its
  environment (relations, configuration, the certificates known to the provider) and acts
  on collaborators (the haproxy service, the certificates library, the TLS relation
  service, the ingress provider, the Juju event). What it reads is a record
  \<open>charm_env\<close>; what it does is recorded in a record \<open>charm_state\<close>: the unit status and
  the sequence of collaborator calls, in the order the code makes them.
\<close>

datatype ProxyMode = INGRESS | LEGACY | NOPROXY | INVALID

text \<open>The values assigned to \<^verbatim>\<open>self.unit.status\<close>.\<close>

datatype StatusBase =
    UnknownStatus
  | MaintenanceStatus string
  | BlockedStatus string
  | ActiveStatus

text \<open>
  The exceptions that can leave a function of the file. \<^verbatim>\<open>TLSNotReadyError\<close> is the
  one \<^verbatim>\<open>_validate_state\<close> catches around \<^verbatim>\<open>TLSInformation.validate\<close>;
  \<open>CharmConfigError\<close> stands for \<^verbatim>\<open>CharmConfig.from_charm\<close> rejecting the
  configuration; \<open>KeyError\<close> is a missing key of \<^verbatim>\<open>event.params\<close>.
\<close>

datatype exn =
    TLSNotReadyError string
  | CharmConfigError string
  | KeyError string

record TLSInformation =
  external_hostname :: string

text \<open>
  A certificate as \<^verbatim>\<open>get_provider_certificates\<close> lists it, with the fields the
  charm reads.
\<close>

record ProviderCertificate =
  certificate :: string
  ca :: string
  chain :: "string list"
  csr :: string

text \<open>The \<^verbatim>\<open>app\<close> part of an ingress relation's data.\<close>

record IngressApp =
  model :: string
  name :: string

text \<open>
  Calls on collaborators. The configuration \<open>'cfg\<close>, the ingress requirers information
  \<open>'req\<close> and the legacy services \<open>'svc\<close> are opaque to the charm: it only passes them on.
  Relations are identified by a number.
\<close>

datatype ('cfg, 'req, 'svc) call =
    HaproxyInstall
  | HaproxyReconcileIngress 'cfg 'req string
  | HaproxyReconcileLegacy 'cfg 'svc
  | HaproxyReconcileDefault 'cfg
  | RequestCertificateRevocation string
  | TlsGeneratePrivateKey string
  | TlsRequestCertificate string
  | TlsCertificateAvailable string
  | TlsCertificateExpiring string
  | TlsCertificateInvalidated string
  | TlsAllCertificateInvalidated
  | PublishUrl nat string
  | EventSetResults string string string
  | EventFail string
  | EventDefer

text \<open>
  What one handler run reads. \<open>tls_information\<close> is the outcome of
  \<^verbatim>\<open>TLSInformation.validate\<close> and \<^verbatim>\<open>TLSInformation.from_charm\<close>: \<open>Inl msg\<close> when
  they raise \<^verbatim>\<open>TLSNotReadyError(msg)\<close>. \<open>charm_config\<close> is the outcome of
  \<^verbatim>\<open>CharmConfig.from_charm\<close>. \<open>get_hostname_from_cert\<close> and \<open>chain_as_pem\<close> are
  functions of other modules, taken as parameters.
\<close>

record ('cfg, 'req, 'svc) charm_env =
  ingress_relations :: "nat list"
  reverseproxy_relations :: "nat list"
  tls_information :: "string + TLSInformation"
  charm_config :: "string + 'cfg"
  ingress_requirers :: 'req
  reverseproxy_services :: 'svc
  provider_certificates :: "ProviderCertificate list"
  get_hostname_from_cert :: "string \<Rightarrow> string"
  chain_as_pem :: "string list \<Rightarrow> string"
  ingress_data :: "nat \<Rightarrow> IngressApp"

record ('cfg, 'req, 'svc) charm_state =
  unit_status :: StatusBase
  calls :: "('cfg, 'req, 'svc) call list"

section \<open>Mode resolution and the reconciliation pass\<close>

text \<open>\<^verbatim>\<open>_validate_state\<close>: the proxy mode, and the state with the status it may set.\<close>

definition validate_state ::
  "('cfg, 'req, 'svc) charm_env \<Rightarrow> ('cfg, 'req, 'svc) charm_state
    \<Rightarrow> ProxyMode \<times> ('cfg, 'req, 'svc) charm_state" where
  "validate_state env st =
    (let is_ingress_related = (ingress_relations env \<noteq> []);
         is_legacy_related = (reverseproxy_relations env \<noteq> [])
     in
       if is_ingress_related \<and> is_legacy_related then
         (INVALID,
          st\<lparr>unit_status := BlockedStatus ''Both ingress and reverseproxy is related.''\<rparr>)
       else if is_ingress_related then
         (case tls_information env of
            Inl msg \<Rightarrow> (INVALID, st\<lparr>unit_status := BlockedStatus msg\<rparr>)
          | Inr _ \<Rightarrow> (INGRESS, st))
       else if is_legacy_related then (LEGACY, st)
       else (NOPROXY, st))"

text \<open>\<^verbatim>\<open>_reconcile\<close>: render the haproxy configuration for the resolved mode.\<close>

definition reconcile ::
  "('cfg, 'req, 'svc) charm_env \<Rightarrow> ('cfg, 'req, 'svc) charm_state
    \<Rightarrow> exn + ('cfg, 'req, 'svc) charm_state" where
  "reconcile env st =
    (case validate_state env st of
       (proxy_mode, st1) \<Rightarrow>
         if proxy_mode = INVALID then Inr st1
         else
           (case charm_config env of
              Inl msg \<Rightarrow> Inl (CharmConfigError msg)
            | Inr config \<Rightarrow>
                (case proxy_mode of
                   INGRESS \<Rightarrow>
                     (case tls_information env of
                        Inl msg \<Rightarrow> Inl (TLSNotReadyError msg)
                      | Inr tls \<Rightarrow>
                          Inr (st1\<lparr>calls := calls st1 @
                                 [HaproxyReconcileIngress config (ingress_requirers env)
                                    (external_hostname tls)],
                               unit_status := ActiveStatus\<rparr>))
                 | LEGACY \<Rightarrow>
                     Inr (st1\<lparr>calls := calls st1 @
                            [HaproxyReconcileLegacy config (reverseproxy_services env)],
                          unit_status := ActiveStatus\<rparr>)
                 | _ \<Rightarrow>
                     Inr (st1\<lparr>calls := calls st1 @ [HaproxyReconcileDefault config],
                          unit_status := ActiveStatus\<rparr>))))"

section \<open>Certificate reconciliation\<close>

text \<open>
  The loop of \<^verbatim>\<open>_reconcile_certificates\<close> over the provider's certificates. The
  accumulator is the local \<^verbatim>\<open>current_certificate\<close> and the state; a certificate
  whose hostname differs from the configured one is revoked by its signing request
  (\<^verbatim>\<open>csr.encode()\<close>, the bytes of the same text), the others are kept as current.
\<close>

fun reconcile_certificates_loop ::
  "(string \<Rightarrow> string) \<Rightarrow> string \<Rightarrow> ProviderCertificate list
    \<Rightarrow> ProviderCertificate option \<times> ('cfg, 'req, 'svc) charm_state
    \<Rightarrow> ProviderCertificate option \<times> ('cfg, 'req, 'svc) charm_state" where
  "reconcile_certificates_loop hostname_of host [] acc = acc"
| "reconcile_certificates_loop hostname_of host (c # cs) (current_certificate, st) =
     (if hostname_of (certificate c) \<noteq> host then
        reconcile_certificates_loop hostname_of host cs
          (current_certificate,
           st\<lparr>calls := calls st @ [RequestCertificateRevocation (csr c)]\<rparr>)
      else reconcile_certificates_loop hostname_of host cs (Some c, st))"

text \<open>\<^verbatim>\<open>_reconcile_certificates\<close>.\<close>

definition reconcile_certificates ::
  "('cfg, 'req, 'svc) charm_env \<Rightarrow> ('cfg, 'req, 'svc) charm_state
    \<Rightarrow> exn + ('cfg, 'req, 'svc) charm_state" where
  "reconcile_certificates env st =
    (case tls_information env of
       Inl msg \<Rightarrow> Inl (TLSNotReadyError msg)
     | Inr tls \<Rightarrow>
         (case reconcile_certificates_loop (get_hostname_from_cert env)
                 (external_hostname tls) (provider_certificates env) (None, st) of
            (current_certificate, st1) \<Rightarrow>
              if current_certificate = None then
                Inr (st1\<lparr>calls := calls st1 @
                       [TlsGeneratePrivateKey (external_hostname tls),
                        TlsRequestCertificate (external_hostname tls)]\<rparr>)
              else Inr st1))"

text \<open>The calls a run made, given the state before it and the state after it.\<close>

definition issued ::
  "('cfg, 'req, 'svc) charm_state \<Rightarrow> ('cfg, 'req, 'svc) charm_state
    \<Rightarrow> ('cfg, 'req, 'svc) call list" where
  "issued before after = drop (length (calls before)) (calls after)"

section \<open>Event handlers\<close>

text \<open>
  Modelled from the spec: the decorator \<^verbatim>\<open>validate_config_and_tls\<close> of
  \<^verbatim>\<open>state/validation.py\<close> is not among the sources. The spec's deferral policy
  (4.4): the configuration is validated first; when it is invalid, or when
  \<^verbatim>\<open>block_on_tls_not_ready\<close> is set and the TLS information cannot be constructed,
  the signal is deferred if \<^verbatim>\<open>defer\<close> is set and ignored otherwise, the status
  being left as it was; else the handler runs.
\<close>

definition validate_config_and_tls ::
  "bool \<Rightarrow> bool
    \<Rightarrow> (('cfg, 'req, 'svc) charm_env \<Rightarrow> ('cfg, 'req, 'svc) charm_state
          \<Rightarrow> exn + ('cfg, 'req, 'svc) charm_state)
    \<Rightarrow> ('cfg, 'req, 'svc) charm_env \<Rightarrow> ('cfg, 'req, 'svc) charm_state
    \<Rightarrow> exn + ('cfg, 'req, 'svc) charm_state" where
  "validate_config_and_tls defer block_on_tls_not_ready handler env st =
    (if isl (charm_config env) \<or> (block_on_tls_not_ready \<and> isl (tls_information env)) then
       (if defer then Inr (st\<lparr>calls := calls st @ [EventDefer]\<rparr>) else Inr st)
     else handler env st)"

text \<open>
  Modelled from the spec: \<^verbatim>\<open>TLSRelationService.get_provider_cert_with_hostname\<close>
  of \<^verbatim>\<open>tls_relation.py\<close> is not among the sources. The spec's
  \<^verbatim>\<open>lookupByHostname(hostname) -> Option<ProviderCertificate>\<close> is a read-only
  accessor over the provider certificates, each identified by the hostname embedded in
  it, which returns none rather than erroring when absent.
\<close>

definition get_provider_cert_with_hostname ::
  "('cfg, 'req, 'svc) charm_env \<Rightarrow> string \<Rightarrow> ProviderCertificate option" where
  "get_provider_cert_with_hostname env hostname =
    find (\<lambda>c. get_hostname_from_cert env (certificate c) = hostname)
      (provider_certificates env)"

text \<open>The body of \<^verbatim>\<open>_on_certificate_expiring\<close>, and the handler as decorated.\<close>

definition on_certificate_expiring_body ::
  "string \<Rightarrow> ('cfg, 'req, 'svc) charm_env \<Rightarrow> ('cfg, 'req, 'svc) charm_state
    \<Rightarrow> exn + ('cfg, 'req, 'svc) charm_state" where
  "on_certificate_expiring_body cert env st =
    (case tls_information env of
       Inl msg \<Rightarrow> Inl (TLSNotReadyError msg)
     | Inr _ \<Rightarrow>
         (let st1 = st\<lparr>calls := calls st @ [TlsCertificateExpiring cert]\<rparr>;
              hostname = get_hostname_from_cert env cert
          in Inr (st1\<lparr>unit_status := MaintenanceStatus
                    (''Waiting for new certificate for hostname: '' @ hostname)\<rparr>)))"

definition on_certificate_expiring ::
  "string \<Rightarrow> ('cfg, 'req, 'svc) charm_env \<Rightarrow> ('cfg, 'req, 'svc) charm_state
    \<Rightarrow> exn + ('cfg, 'req, 'svc) charm_state" where
  "on_certificate_expiring cert =
     validate_config_and_tls True True (on_certificate_expiring_body cert)"

text \<open>
  The body of \<^verbatim>\<open>_on_certificate_invalidated\<close>, and the handler as decorated. The two
  tests on the reason are separate statements, and the status is assigned twice.
\<close>

definition on_certificate_invalidated_body ::
  "string \<Rightarrow> string \<Rightarrow> ('cfg, 'req, 'svc) charm_env \<Rightarrow> ('cfg, 'req, 'svc) charm_state
    \<Rightarrow> exn + ('cfg, 'req, 'svc) charm_state" where
  "on_certificate_invalidated_body cert reason env st =
    (case tls_information env of
       Inl msg \<Rightarrow> Inl (TLSNotReadyError msg)
     | Inr _ \<Rightarrow>
         (let st1 = (if reason = ''revoked''
                     then st\<lparr>calls := calls st @ [TlsCertificateInvalidated cert]\<rparr>
                     else st);
              st2 = (if reason = ''expired''
                     then st1\<lparr>calls := calls st1 @ [TlsCertificateExpiring cert]\<rparr>
                     else st1);
              st3 = st2\<lparr>unit_status := MaintenanceStatus ''Waiting for new certificate''\<rparr>;
              hostname = get_hostname_from_cert env cert
          in Inr (st3\<lparr>unit_status := MaintenanceStatus
                    (''Waiting for new certificate for hostname: '' @ hostname)\<rparr>)))"

definition on_certificate_invalidated ::
  "string \<Rightarrow> string \<Rightarrow> ('cfg, 'req, 'svc) charm_env \<Rightarrow> ('cfg, 'req, 'svc) charm_state
    \<Rightarrow> exn + ('cfg, 'req, 'svc) charm_state" where
  "on_certificate_invalidated cert reason =
     validate_config_and_tls True True (on_certificate_invalidated_body cert reason)"

text \<open>
  \<^verbatim>\<open>_on_get_certificate_action\<close>, which is not decorated. \<open>params\<close> is
  \<^verbatim>\<open>event.params\<close>.
\<close>

definition on_get_certificate_action ::
  "(string \<rightharpoonup> string) \<Rightarrow> ('cfg, 'req, 'svc) charm_env \<Rightarrow> ('cfg, 'req, 'svc) charm_state
    \<Rightarrow> exn + ('cfg, 'req, 'svc) charm_state" where
  "on_get_certificate_action params env st =
    (case tls_information env of
       Inl msg \<Rightarrow> Inl (TLSNotReadyError msg)
     | Inr _ \<Rightarrow>
         (case params ''hostname'' of
            None \<Rightarrow> Inl (KeyError ''hostname'')
          | Some hostname \<Rightarrow>
              (case get_provider_cert_with_hostname env hostname of
                 Some provider_cert \<Rightarrow>
                   Inr (st\<lparr>calls := calls st @
                          [EventSetResults (certificate provider_cert) (ca provider_cert)
                             (chain_as_pem env (chain provider_cert))]\<rparr>)
               | None \<Rightarrow>
                   Inr (st\<lparr>calls := calls st @
                          [EventFail (''Missing or incomplete certificate data for ''
                                        @ hostname)]\<rparr>))))"

text \<open>The body of \<^verbatim>\<open>_on_ingress_data_provided\<close>, and the handler as decorated.\<close>

definition on_ingress_data_provided_body ::
  "nat \<Rightarrow> ('cfg, 'req, 'svc) charm_env \<Rightarrow> ('cfg, 'req, 'svc) charm_state
    \<Rightarrow> exn + ('cfg, 'req, 'svc) charm_state" where
  "on_ingress_data_provided_body relation env st =
    (case reconcile env st of
       Inl e \<Rightarrow> Inl e
     | Inr st1 \<Rightarrow>
         (case tls_information env of
            Inl msg \<Rightarrow> Inl (TLSNotReadyError msg)
          | Inr tls \<Rightarrow>
              (let integration_data = ingress_data env relation;
                   path_prefix = model integration_data @ ''-'' @ name integration_data
               in Inr (st1\<lparr>calls := calls st1 @
                         [PublishUrl relation
                            (''https://'' @ external_hostname tls @ ''/'' @ path_prefix
                               @ ''/'')]\<rparr>))))"

definition on_ingress_data_provided ::
  "nat \<Rightarrow> ('cfg, 'req, 'svc) charm_env \<Rightarrow> ('cfg, 'req, 'svc) charm_state
    \<Rightarrow> exn + ('cfg, 'req, 'svc) charm_state" where
  "on_ingress_data_provided relation =
     validate_config_and_tls True True (on_ingress_data_provided_body relation)"

text \<open>
  Modelled from the spec: the methods \<^verbatim>\<open>certificate_invalidated\<close> and
  \<^verbatim>\<open>certificate_expiring\<close> of \<^verbatim>\<open>TLSRelationService\<close> (\<^verbatim>\<open>tls_relation.py\<close>)
  are not among the sources. Spec 4.2 gives what they do to the certificates the
  coordinator tracks: a revoked certificate is dropped and a fresh one is requested via
  the request path, which generates a fresh private key for the hostname and then issues
  a signing request; an expiring certificate is marked EXPIRING and is not revoked. The
  hostname of the fresh request is the one embedded in the certificate, the hostname the
  handler's status waits for.
\<close>

datatype tls_request = GeneratePrivateKey string | RequestCertificate string

record tls_service =
  tracked :: "string list"
  marked_expiring :: "string list"
  requests :: "tls_request list"

definition request_path :: "string \<Rightarrow> tls_service \<Rightarrow> tls_service" where
  "request_path host s =
     s\<lparr>requests := requests s @ [GeneratePrivateKey host, RequestCertificate host]\<rparr>"

definition certificate_invalidated ::
  "(string \<Rightarrow> string) \<Rightarrow> string \<Rightarrow> tls_service \<Rightarrow> tls_service" where
  "certificate_invalidated hostname_of cert s =
     request_path (hostname_of cert) (s\<lparr>tracked := removeAll cert (tracked s)\<rparr>)"

definition certificate_expiring :: "string \<Rightarrow> tls_service \<Rightarrow> tls_service" where
  "certificate_expiring cert s = s\<lparr>marked_expiring := cert # marked_expiring s\<rparr>"

text \<open>
  What a sequence of recorded calls does to the TLS service, for the two operations
  modelled above; \<open>None\<close> when the sequence holds any other call.
\<close>

fun tls_service_calls ::
  "(string \<Rightarrow> string) \<Rightarrow> ('cfg, 'req, 'svc) call list \<Rightarrow> tls_service
    \<Rightarrow> tls_service option" where
  "tls_service_calls hostname_of [] s = Some s"
| "tls_service_calls hostname_of (TlsCertificateInvalidated cert # cs) s =
     tls_service_calls hostname_of cs (certificate_invalidated hostname_of cert s)"
| "tls_service_calls hostname_of (TlsCertificateExpiring cert # cs) s =
     tls_service_calls hostname_of cs (certificate_expiring cert s)"
| "tls_service_calls hostname_of (_ # cs) s = None"

section \<open>Concrete scenarios\<close>

text \<open>
  Environments and a state on which the theorems below are exercised. The sample
  certificates carry their hostname in front of a colon, and the sample
  \<open>get_hostname_from_cert\<close> reads it from there.
\<close>

definition example_env ::
  "nat list \<Rightarrow> nat list \<Rightarrow> string + TLSInformation \<Rightarrow> ProviderCertificate list
    \<Rightarrow> (unit, unit, unit) charm_env" where
  "example_env ingress legacy tls certs =
    \<lparr>ingress_relations = ingress,
     reverseproxy_relations = legacy,
     tls_information = tls,
     charm_config = Inr (),
     ingress_requirers = (),
     reverseproxy_services = (),
     provider_certificates = certs,
     get_hostname_from_cert = takeWhile (\<lambda>c. c \<noteq> CHR '':''),
     chain_as_pem = concat,
     ingress_data = (\<lambda>_. \<lparr>model = ''prod'', name = ''web''\<rparr>)\<rparr>"

definition example_state :: "(unit, unit, unit) charm_state" where
  "example_state =
    \<lparr>unit_status = MaintenanceStatus ''Waiting for haproxy to be configured.'',
     calls = []\<rparr>"

definition example_cert :: "string \<Rightarrow> string \<Rightarrow> ProviderCertificate" where
  "example_cert host tag =
    \<lparr>certificate = host @ '':CERT-'' @ tag, ca = ''CA'', chain = [''CA''],
     csr = ''CSR-'' @ tag\<rparr>"

definition example_service :: tls_service where
  "example_service =
     \<lparr>tracked = [''svc.example.com:CERT-1''], marked_expiring = [], requests = []\<rparr>"

section \<open>Mode resolution: properties\<close>

text \<open>
  C1. Mode resolution follows the decision order: both relations present give INVALID
  with a blocked status; otherwise, with ingress related, a failing TLS validation gives
  INVALID with the validator's message as the blocked status and a successful one gives
  INGRESS; otherwise a legacy relation gives LEGACY; otherwise NOPROXY. Outside the two
  INVALID branches the state is left as it was.
\<close>

theorem validate_state_decision_order:
  "(ingress_relations env \<noteq> [] \<and> reverseproxy_relations env \<noteq> [] \<longrightarrow>
      validate_state env st =
        (INVALID,
         st\<lparr>unit_status := BlockedStatus ''Both ingress and reverseproxy is related.''\<rparr>))
   \<and> (ingress_relations env \<noteq> [] \<and> reverseproxy_relations env = [] \<longrightarrow>
        (\<forall>msg. tls_information env = Inl msg \<longrightarrow>
           validate_state env st = (INVALID, st\<lparr>unit_status := BlockedStatus msg\<rparr>))
        \<and> (\<forall>tls. tls_information env = Inr tls \<longrightarrow>
             validate_state env st = (INGRESS, st)))
   \<and> (ingress_relations env = [] \<and> reverseproxy_relations env \<noteq> [] \<longrightarrow>
        validate_state env st = (LEGACY, st))
   \<and> (ingress_relations env = [] \<and> reverseproxy_relations env = [] \<longrightarrow>
        validate_state env st = (NOPROXY, st))"
  by (simp add: validate_state_def)

theorem validate_state_decision_order_witness:
  "validate_state (example_env [1] [2] (Inl ''Invalid hostname configuration.'') []) example_state
     = (INVALID, example_state\<lparr>unit_status :=
          BlockedStatus ''Both ingress and reverseproxy is related.''\<rparr>)
   \<and> validate_state (example_env [1] [] (Inl ''Invalid hostname configuration.'') []) example_state
     = (INVALID, example_state\<lparr>unit_status :=
          BlockedStatus ''Invalid hostname configuration.''\<rparr>)
   \<and> validate_state (example_env [1] []
         (Inr \<lparr>external_hostname = ''svc.example.com''\<rparr>) []) example_state
     = (INGRESS, example_state)
   \<and> validate_state (example_env [] [2] (Inl ''Invalid hostname configuration.'') [])
         example_state
     = (LEGACY, example_state)
   \<and> validate_state (example_env [] [] (Inl ''Invalid hostname configuration.'') [])
         example_state
     = (NOPROXY, example_state)"
  using
    validate_state_decision_order
      [of "example_env [1] [2] (Inl ''Invalid hostname configuration.'') []" example_state]
    validate_state_decision_order
      [of "example_env [1] [] (Inl ''Invalid hostname configuration.'') []" example_state]
    validate_state_decision_order
      [of "example_env [1] [] (Inr \<lparr>external_hostname = ''svc.example.com''\<rparr>) []"
          example_state]
    validate_state_decision_order
      [of "example_env [] [2] (Inl ''Invalid hostname configuration.'') []" example_state]
    validate_state_decision_order
      [of "example_env [] [] (Inl ''Invalid hostname configuration.'') []" example_state]
  by (simp add: example_env_def)

text \<open>
  C2, as stated, fails. With the ingress relation alone and a TLS validation that raises,
  \<^verbatim>\<open>_validate_state\<close> returns INVALID (the \<^verbatim>\<open>except TLSNotReadyError\<close> branch)
  although the legacy relation is absent.
\<close>

theorem validate_state_invalid_iff_both_counterexample:
  "fst (validate_state (example_env [1] [] (Inl ''Invalid hostname configuration.'') [])
          example_state) = INVALID
   \<and> reverseproxy_relations
       (example_env [1] [] (Inl ''Invalid hostname configuration.'') []) = []"
  by (simp add: validate_state_def example_env_def)

text \<open>
  C2, amended. The mode resolver returns INVALID if and only if the ingress relation is
  present and either the legacy relation is present too or the TLS validation fails.
  The TLS state affects the resulting mode only when ingress is the only relation
  present: with no ingress relation, or with a legacy relation, replacing the TLS state
  by any other leaves the mode unchanged.
\<close>

theorem validate_state_invalid_iff:
  "(fst (validate_state env st) = INVALID) =
     (ingress_relations env \<noteq> [] \<and>
        (reverseproxy_relations env \<noteq> [] \<or> isl (tls_information env)))
   \<and> ((ingress_relations env = [] \<or> reverseproxy_relations env \<noteq> []) \<longrightarrow>
        fst (validate_state (env\<lparr>tls_information := t\<rparr>) st) = fst (validate_state env st))"
  by (cases "tls_information env") (auto simp: validate_state_def Let_def)

theorem validate_state_invalid_iff_witness:
  "(fst (validate_state (example_env [1] [2]
           (Inr \<lparr>external_hostname = ''svc.example.com''\<rparr>) []) example_state) = INVALID)
   \<and> fst (validate_state (example_env [] [2] (Inl ''Relation or relation data not ready.'') [])
           example_state) = LEGACY
   \<and> fst (validate_state (example_env [] [2]
           (Inr \<lparr>external_hostname = ''svc.example.com''\<rparr>) []) example_state) = LEGACY"
proof -
  let ?e = "example_env [] [2] (Inr \<lparr>external_hostname = ''svc.example.com''\<rparr>) []"
  have a: "fst (validate_state (example_env [1] [2]
           (Inr \<lparr>external_hostname = ''svc.example.com''\<rparr>) []) example_state) = INVALID"
    using validate_state_invalid_iff
      [of "example_env [1] [2] (Inr \<lparr>external_hostname = ''svc.example.com''\<rparr>) []"
          example_state]
    by (simp add: example_env_def)
  have c: "fst (validate_state ?e example_state) = LEGACY"
    by (simp add: validate_state_def example_env_def)
  have "?e\<lparr>tls_information := Inl ''Relation or relation data not ready.''\<rparr>
          = example_env [] [2] (Inl ''Relation or relation data not ready.'') []"
    by (simp add: example_env_def)
  moreover have "fst (validate_state
           (?e\<lparr>tls_information := Inl ''Relation or relation data not ready.''\<rparr>)
           example_state) = fst (validate_state ?e example_state)"
    using validate_state_invalid_iff
      [of ?e example_state "Inl ''Relation or relation data not ready.''"]
    by (simp add: example_env_def)
  ultimately show ?thesis using a c by simp
qed

section \<open>The reconciliation pass: properties\<close>

text \<open>
  C7. When the mode resolver returns INVALID, \<^verbatim>\<open>_reconcile\<close> returns the state the
  resolver left: no call was made on any collaborator (no ingress, legacy or default
  configuration build), the status is not active, and it is the blocked status the
  resolver set.
\<close>

theorem reconcile_invalid_stops:
  assumes "fst (validate_state env st) = INVALID"
  shows "reconcile env st = Inr (snd (validate_state env st))
    \<and> calls (snd (validate_state env st)) = calls st
    \<and> unit_status (snd (validate_state env st)) \<noteq> ActiveStatus
    \<and> (\<exists>msg. unit_status (snd (validate_state env st)) = BlockedStatus msg)"
proof -
  obtain m st1 where v: "validate_state env st = (m, st1)"
    by (cases "validate_state env st")
  with assms have m: "m = INVALID" by simp
  have r: "reconcile env st = Inr st1"
    by (simp add: reconcile_def v m)
  have "calls st1 = calls st \<and> (\<exists>msg. unit_status st1 = BlockedStatus msg)"
    using v m
    by (auto simp: validate_state_def Let_def split: if_splits sum.splits)
  then show ?thesis using r v by auto
qed

theorem reconcile_invalid_stops_witness:
  "fst (validate_state (example_env [1] [2]
          (Inr \<lparr>external_hostname = ''svc.example.com''\<rparr>) []) example_state) = INVALID
   \<and> reconcile (example_env [1] [2]
          (Inr \<lparr>external_hostname = ''svc.example.com''\<rparr>) []) example_state
     = Inr (example_state\<lparr>unit_status :=
          BlockedStatus ''Both ingress and reverseproxy is related.''\<rparr>)"
proof -
  let ?e = "example_env [1] [2] (Inr \<lparr>external_hostname = ''svc.example.com''\<rparr>) []"
  have v: "validate_state ?e example_state = (INVALID, example_state\<lparr>unit_status :=
          BlockedStatus ''Both ingress and reverseproxy is related.''\<rparr>)"
    by (simp add: validate_state_def example_env_def)
  then have h: "fst (validate_state ?e example_state) = INVALID" by simp
  from reconcile_invalid_stops [OF h] v show ?thesis by simp
qed

section \<open>Certificate reconciliation: properties\<close>

text \<open>
  What the loop computes: the current certificate is the last one of the list whose
  hostname is the configured one, and one revocation is requested, in list order, for
  every certificate whose hostname differs.
\<close>

lemma reconcile_certificates_loop_result:
  "reconcile_certificates_loop gh host cs (cur, st) =
     ((case filter (\<lambda>c. gh (certificate c) = host) cs of
         [] \<Rightarrow> cur
       | m # ms \<Rightarrow> Some (last (m # ms))),
      st\<lparr>calls := calls st @
            map (\<lambda>c. RequestCertificateRevocation (csr c))
              (filter (\<lambda>c. gh (certificate c) \<noteq> host) cs)\<rparr>)"
proof (induction cs arbitrary: cur st)
  case Nil
  show ?case by simp
next
  case (Cons c cs)
  show ?case
  proof (cases "gh (certificate c) = host")
    case True
    then show ?thesis
      by (simp add: Cons.IH split: list.splits)
  next
    case False
    then show ?thesis
      by (simp add: Cons.IH)
  qed
qed

lemma reconcile_certificates_result:
  assumes "tls_information env = Inr tls"
  shows "reconcile_certificates env st =
    Inr (st\<lparr>calls := calls st @
           map (\<lambda>c. RequestCertificateRevocation (csr c))
             (filter (\<lambda>c. get_hostname_from_cert env (certificate c) \<noteq> external_hostname tls)
                (provider_certificates env))
           @ (if \<forall>c \<in> set (provider_certificates env).
                   get_hostname_from_cert env (certificate c) \<noteq> external_hostname tls
              then [TlsGeneratePrivateKey (external_hostname tls),
                    TlsRequestCertificate (external_hostname tls)]
              else [])\<rparr>)"
proof (cases "filter (\<lambda>c. get_hostname_from_cert env (certificate c) = external_hostname tls)
                (provider_certificates env)")
  case Nil
  then have "\<forall>c \<in> set (provider_certificates env).
      get_hostname_from_cert env (certificate c) \<noteq> external_hostname tls"
    by (simp add: filter_empty_conv)
  with Nil show ?thesis
    by (simp add: reconcile_certificates_def assms reconcile_certificates_loop_result)
next
  case (Cons m ms)
  then have "m \<in> set (filter (\<lambda>c. get_hostname_from_cert env (certificate c)
                  = external_hostname tls) (provider_certificates env))"
    by simp
  then have "\<not> (\<forall>c \<in> set (provider_certificates env).
      get_hostname_from_cert env (certificate c) \<noteq> external_hostname tls)"
    by auto
  with Cons show ?thesis
    by (simp add: reconcile_certificates_def assms reconcile_certificates_loop_result)
qed

text \<open>
  C3, as stated, fails. The desired hostname is \<^verbatim>\<open>new.example.com\<close> and the
  provider knows one certificate, for \<^verbatim>\<open>old.example.com\<close>. The first run requests
  its revocation, generates a private key and issues a signing request. The second run,
  with nothing changed in between, does all three again: the requests of the first run
  are not remembered, and after the two runs six calls have been made.
\<close>

theorem reconcile_certificates_repeat_counterexample:
  "reconcile_certificates
      (example_env [] [] (Inr \<lparr>external_hostname = ''new.example.com''\<rparr>)
         [example_cert ''old.example.com'' ''1''])
      example_state
     = Inr (example_state\<lparr>calls :=
         [RequestCertificateRevocation ''CSR-1'',
          TlsGeneratePrivateKey ''new.example.com'',
          TlsRequestCertificate ''new.example.com'']\<rparr>)
   \<and> reconcile_certificates
      (example_env [] [] (Inr \<lparr>external_hostname = ''new.example.com''\<rparr>)
         [example_cert ''old.example.com'' ''1''])
      (example_state\<lparr>calls :=
         [RequestCertificateRevocation ''CSR-1'',
          TlsGeneratePrivateKey ''new.example.com'',
          TlsRequestCertificate ''new.example.com'']\<rparr>)
     = Inr (example_state\<lparr>calls :=
         [RequestCertificateRevocation ''CSR-1'',
          TlsGeneratePrivateKey ''new.example.com'',
          TlsRequestCertificate ''new.example.com'',
          RequestCertificateRevocation ''CSR-1'',
          TlsGeneratePrivateKey ''new.example.com'',
          TlsRequestCertificate ''new.example.com'']\<rparr>)"
  by (simp add: reconcile_certificates_def example_env_def example_cert_def
      example_state_def)

text \<open>
  C3, amended. Two runs of \<^verbatim>\<open>_reconcile_certificates\<close> in succession, the second
  with the same desired hostname and the same set of provider certificates as the first:
  the second run returns and issues the requests of the first run again (the same set of
  requests, and the same sequence when the provider lists its certificates in the same
  order), which are one revocation request for each known certificate whose hostname
  differs from the desired one, followed by a private-key generation and a signing
  request when no known certificate has the desired hostname. The second run issues no
  request exactly when the provider knows at least one certificate and every known
  certificate has the desired hostname.
\<close>

theorem reconcile_certificates_second_run:
  assumes first: "reconcile_certificates env st = Inr st1"
    and tls: "tls_information env = Inr tls"
    and host: "tls_information env' = tls_information env"
    and hn: "get_hostname_from_cert env' = get_hostname_from_cert env"
    and certs: "set (provider_certificates env') = set (provider_certificates env)"
  shows "\<exists>st2. reconcile_certificates env' st1 = Inr st2
     \<and> set (issued st1 st2) = set (issued st st1)
     \<and> (provider_certificates env' = provider_certificates env
          \<longrightarrow> issued st1 st2 = issued st st1)
     \<and> issued st1 st2 =
         map (\<lambda>c. RequestCertificateRevocation (csr c))
           (filter (\<lambda>c. get_hostname_from_cert env (certificate c) \<noteq> external_hostname tls)
              (provider_certificates env'))
         @ (if \<forall>c \<in> set (provider_certificates env).
                 get_hostname_from_cert env (certificate c) \<noteq> external_hostname tls
            then [TlsGeneratePrivateKey (external_hostname tls),
                  TlsRequestCertificate (external_hostname tls)]
            else [])
     \<and> ((issued st1 st2 = []) =
          (provider_certificates env \<noteq> [] \<and>
           (\<forall>c \<in> set (provider_certificates env).
               get_hostname_from_cert env (certificate c) = external_hostname tls)))"
proof -
  have tls': "tls_information env' = Inr tls" using host tls by simp
  note r1 = reconcile_certificates_result [OF tls, of st]
  note r2 = reconcile_certificates_result [OF tls', of st1]
  from r1 first have i1: "issued st st1 =
       map (\<lambda>c. RequestCertificateRevocation (csr c))
             (filter (\<lambda>c. get_hostname_from_cert env (certificate c) \<noteq> external_hostname tls)
                (provider_certificates env))
           @ (if \<forall>c \<in> set (provider_certificates env).
                   get_hostname_from_cert env (certificate c) \<noteq> external_hostname tls
              then [TlsGeneratePrivateKey (external_hostname tls),
                    TlsRequestCertificate (external_hostname tls)]
              else [])"
    by (simp add: issued_def)
  obtain st2 where st2: "reconcile_certificates env' st1 = Inr st2"
    using r2 by blast
  from r2 st2 have i2: "issued st1 st2 =
       map (\<lambda>c. RequestCertificateRevocation (csr c))
             (filter (\<lambda>c. get_hostname_from_cert env (certificate c) \<noteq> external_hostname tls)
                (provider_certificates env'))
           @ (if \<forall>c \<in> set (provider_certificates env).
                   get_hostname_from_cert env (certificate c) \<noteq> external_hostname tls
              then [TlsGeneratePrivateKey (external_hostname tls),
                    TlsRequestCertificate (external_hostname tls)]
              else [])"
    by (simp add: issued_def hn certs)
  have sets: "set (issued st1 st2) = set (issued st st1)"
    unfolding i1 i2 by (simp add: certs)
  have lists: "provider_certificates env' = provider_certificates env
      \<longrightarrow> issued st1 st2 = issued st st1"
    unfolding i1 i2 by simp
  have "(issued st1 st2 = []) =
      ((\<forall>c \<in> set (provider_certificates env').
           get_hostname_from_cert env (certificate c) = external_hostname tls)
       \<and> \<not> (\<forall>c \<in> set (provider_certificates env).
           get_hostname_from_cert env (certificate c) \<noteq> external_hostname tls))"
    unfolding i2 by (auto simp: filter_empty_conv)
  also have "\<dots> =
      (provider_certificates env \<noteq> [] \<and>
       (\<forall>c \<in> set (provider_certificates env).
           get_hostname_from_cert env (certificate c) = external_hostname tls))"
    unfolding certs by (cases "provider_certificates env") auto
  finally have silent: "(issued st1 st2 = []) =
      (provider_certificates env \<noteq> [] \<and>
       (\<forall>c \<in> set (provider_certificates env).
           get_hostname_from_cert env (certificate c) = external_hostname tls))" .
  from st2 sets lists i2 silent show ?thesis by blast
qed

theorem reconcile_certificates_second_run_witness:
  "(\<exists>st2. reconcile_certificates
         (example_env [] [] (Inr \<lparr>external_hostname = ''new.example.com''\<rparr>)
            [example_cert ''old.example.com'' ''1''])
         (example_state\<lparr>calls :=
            [RequestCertificateRevocation ''CSR-1'',
             TlsGeneratePrivateKey ''new.example.com'',
             TlsRequestCertificate ''new.example.com'']\<rparr>) = Inr st2
       \<and> issued (example_state\<lparr>calls :=
            [RequestCertificateRevocation ''CSR-1'',
             TlsGeneratePrivateKey ''new.example.com'',
             TlsRequestCertificate ''new.example.com'']\<rparr>) st2
         = [RequestCertificateRevocation ''CSR-1'',
            TlsGeneratePrivateKey ''new.example.com'',
            TlsRequestCertificate ''new.example.com''])
   \<and> (\<exists>st2. reconcile_certificates
         (example_env [] [] (Inr \<lparr>external_hostname = ''new.example.com''\<rparr>)
            [example_cert ''new.example.com'' ''2''])
         example_state = Inr st2
       \<and> issued example_state st2 = [])"
proof -
  let ?t = "\<lparr>external_hostname = ''new.example.com''\<rparr>"
  let ?e = "example_env [] [] (Inr ?t) [example_cert ''old.example.com'' ''1'']"
  let ?s1 = "example_state\<lparr>calls :=
         [RequestCertificateRevocation ''CSR-1'',
          TlsGeneratePrivateKey ''new.example.com'',
          TlsRequestCertificate ''new.example.com'']\<rparr>"
  let ?f = "example_env [] [] (Inr ?t) [example_cert ''new.example.com'' ''2'']"
  have first: "reconcile_certificates ?e example_state = Inr ?s1"
    by (simp add: reconcile_certificates_def example_env_def example_cert_def
        example_state_def)
  have te: "tls_information ?e = Inr ?t" by (simp add: example_env_def)
  from reconcile_certificates_second_run [OF first te refl refl refl]
  obtain st2 where a1: "reconcile_certificates ?e ?s1 = Inr st2"
    and a2: "issued ?s1 st2 =
         map (\<lambda>c. RequestCertificateRevocation (csr c))
           (filter (\<lambda>c. get_hostname_from_cert ?e (certificate c) \<noteq> external_hostname ?t)
              (provider_certificates ?e))
         @ (if \<forall>c \<in> set (provider_certificates ?e).
                 get_hostname_from_cert ?e (certificate c) \<noteq> external_hostname ?t
            then [TlsGeneratePrivateKey (external_hostname ?t),
                  TlsRequestCertificate (external_hostname ?t)]
            else [])"
    by blast
  from a2 have a3: "issued ?s1 st2 =
        [RequestCertificateRevocation ''CSR-1'',
         TlsGeneratePrivateKey ''new.example.com'',
         TlsRequestCertificate ''new.example.com'']"
    by (simp add: example_env_def example_cert_def)
  have quiet: "reconcile_certificates ?f example_state = Inr example_state"
    by (simp add: reconcile_certificates_def example_env_def example_cert_def
        example_state_def)
  have tf: "tls_information ?f = Inr ?t" by (simp add: example_env_def)
  from reconcile_certificates_second_run [OF quiet tf refl refl refl]
  obtain st3 where b1: "reconcile_certificates ?f example_state = Inr st3"
    and b2: "(issued example_state st3 = []) =
          (provider_certificates ?f \<noteq> [] \<and>
           (\<forall>c \<in> set (provider_certificates ?f).
               get_hostname_from_cert ?f (certificate c) = external_hostname ?t))"
    by blast
  from b2 have b3: "issued example_state st3 = []"
    by (simp add: example_env_def example_cert_def)
  from a1 a3 b1 b3 show ?thesis by blast
qed

text \<open>
  C4, as stated, fails. The desired hostname changes from \<^verbatim>\<open>old.example.com\<close> to
  \<^verbatim>\<open>new.example.com\<close> while the provider knows a certificate for each: the
  certificate of the old hostname is revoked, and no private key is generated and no
  signing request is issued, because the certificate of the new hostname is taken as
  current (\<^verbatim>\<open>if not current_certificate\<close>).
\<close>

theorem reconcile_certificates_hostname_change_counterexample:
  "reconcile_certificates
      (example_env [] [] (Inr \<lparr>external_hostname = ''new.example.com''\<rparr>)
         [example_cert ''old.example.com'' ''1'', example_cert ''new.example.com'' ''2''])
      example_state
     = Inr (example_state\<lparr>calls := [RequestCertificateRevocation ''CSR-1'']\<rparr>)"
  by (simp add: reconcile_certificates_def example_env_def example_cert_def
      example_state_def)

text \<open>
  C4, amended. A run of \<^verbatim>\<open>_reconcile_certificates\<close> with the desired hostname issues
  exactly one revocation request for each known provider certificate whose embedded
  hostname differs from the desired hostname, in the order of the list; when no known
  certificate has the desired hostname it then generates one private key for that
  hostname and issues one signing request, in that order and after all revocations; when
  some known certificate has the desired hostname it issues neither. Nothing else is
  called and the status is left as it was.
\<close>

theorem reconcile_certificates_requests:
  assumes "tls_information env = Inr tls"
  shows "\<exists>st1. reconcile_certificates env st = Inr st1 \<and> unit_status st1 = unit_status st
     \<and> calls st1 = calls st @
           map (\<lambda>c. RequestCertificateRevocation (csr c))
             (filter (\<lambda>c. get_hostname_from_cert env (certificate c) \<noteq> external_hostname tls)
                (provider_certificates env))
           @ (if \<forall>c \<in> set (provider_certificates env).
                   get_hostname_from_cert env (certificate c) \<noteq> external_hostname tls
              then [TlsGeneratePrivateKey (external_hostname tls),
                    TlsRequestCertificate (external_hostname tls)]
              else [])"
  by (simp add: reconcile_certificates_result [OF assms])

theorem reconcile_certificates_requests_witness:
  "(\<exists>st1. reconcile_certificates
        (example_env [] [] (Inr \<lparr>external_hostname = ''new.example.com''\<rparr>)
           [example_cert ''old.example.com'' ''1'', example_cert ''older.example.com'' ''2''])
        example_state = Inr st1
      \<and> calls st1 =
          [RequestCertificateRevocation ''CSR-1'', RequestCertificateRevocation ''CSR-2'',
           TlsGeneratePrivateKey ''new.example.com'',
           TlsRequestCertificate ''new.example.com''])
   \<and> (\<exists>st1. reconcile_certificates
        (example_env [] [] (Inr \<lparr>external_hostname = ''new.example.com''\<rparr>)
           [example_cert ''old.example.com'' ''1'', example_cert ''new.example.com'' ''2''])
        example_state = Inr st1
      \<and> calls st1 = [RequestCertificateRevocation ''CSR-1''])"
proof -
  have t: "\<And>cs. tls_information
       (example_env [] [] (Inr \<lparr>external_hostname = ''new.example.com''\<rparr>) cs)
      = Inr \<lparr>external_hostname = ''new.example.com''\<rparr>"
    by (simp add: example_env_def)
  from reconcile_certificates_requests [OF t, of
      "[example_cert ''old.example.com'' ''1'', example_cert ''older.example.com'' ''2'']"
      example_state]
  have a: "\<exists>st1. reconcile_certificates
        (example_env [] [] (Inr \<lparr>external_hostname = ''new.example.com''\<rparr>)
           [example_cert ''old.example.com'' ''1'', example_cert ''older.example.com'' ''2''])
        example_state = Inr st1
      \<and> calls st1 =
          [RequestCertificateRevocation ''CSR-1'', RequestCertificateRevocation ''CSR-2'',
           TlsGeneratePrivateKey ''new.example.com'',
           TlsRequestCertificate ''new.example.com'']"
    by (auto simp: example_env_def example_cert_def example_state_def)
  from reconcile_certificates_requests [OF t, of
      "[example_cert ''old.example.com'' ''1'', example_cert ''new.example.com'' ''2'']"
      example_state]
  have b: "\<exists>st1. reconcile_certificates
        (example_env [] [] (Inr \<lparr>external_hostname = ''new.example.com''\<rparr>)
           [example_cert ''old.example.com'' ''1'', example_cert ''new.example.com'' ''2''])
        example_state = Inr st1
      \<and> calls st1 = [RequestCertificateRevocation ''CSR-1'']"
    by (auto simp: example_env_def example_cert_def example_state_def)
  from a b show ?thesis by (rule conjI)
qed

text \<open>
  C9. When the loop of \<^verbatim>\<open>_reconcile_certificates\<close> ends, at most one provider
  certificate is held as the current one, for every list of known certificates: it is
  the last certificate of the list whose hostname is the desired one (none when there is
  no such certificate), so it is a known certificate for the desired hostname.
\<close>

theorem reconcile_certificates_loop_current:
  "fst (reconcile_certificates_loop gh host certs (None, st)) =
      (case filter (\<lambda>c. gh (certificate c) = host) certs of
         [] \<Rightarrow> None
       | m # ms \<Rightarrow> Some (last (m # ms)))
   \<and> card {c. fst (reconcile_certificates_loop gh host certs (None, st)) = Some c} \<le> 1
   \<and> (\<forall>c. fst (reconcile_certificates_loop gh host certs (None, st)) = Some c
          \<longrightarrow> c \<in> set certs \<and> gh (certificate c) = host)"
proof -
  let ?cur = "fst (reconcile_certificates_loop gh host certs (None, st))"
  let ?ms = "filter (\<lambda>c. gh (certificate c) = host) certs"
  have eq: "?cur = (case ?ms of [] \<Rightarrow> None | m # ms \<Rightarrow> Some (last (m # ms)))"
    by (simp add: reconcile_certificates_loop_result)
  have one: "card {c. ?cur = Some c} \<le> 1"
  proof (cases ?cur)
    case None
    then show ?thesis by simp
  next
    case (Some a)
    then have "{c. ?cur = Some c} = {a}" by auto
    then show ?thesis by simp
  qed
  have mem: "\<forall>c. ?cur = Some c \<longrightarrow> c \<in> set certs \<and> gh (certificate c) = host"
  proof (intro allI impI)
    fix c
    assume "?cur = Some c"
    with eq have ne: "?ms \<noteq> []" and c: "c = last ?ms"
      by (auto split: list.splits)
    from ne have "last ?ms \<in> set ?ms" by (rule last_in_set)
    with c show "c \<in> set certs \<and> gh (certificate c) = host" by simp
  qed
  from eq one mem show ?thesis by blast
qed

theorem reconcile_certificates_loop_current_witness:
  "fst (reconcile_certificates_loop (takeWhile (\<lambda>c. c \<noteq> CHR '':'')) ''svc.example.com''
          [example_cert ''svc.example.com'' ''1'', example_cert ''old.example.com'' ''2'',
           example_cert ''svc.example.com'' ''3'']
          (None, example_state))
     = Some (example_cert ''svc.example.com'' ''3'')
   \<and> card {c. fst (reconcile_certificates_loop (takeWhile (\<lambda>c. c \<noteq> CHR '':''))
          ''svc.example.com''
          [example_cert ''svc.example.com'' ''1'', example_cert ''old.example.com'' ''2'',
           example_cert ''svc.example.com'' ''3'']
          (None, example_state)) = Some c} \<le> 1"
  using reconcile_certificates_loop_current
    [of "takeWhile (\<lambda>c. c \<noteq> CHR '':'')" "''svc.example.com''"
        "[example_cert ''svc.example.com'' ''1'', example_cert ''old.example.com'' ''2'',
          example_cert ''svc.example.com'' ''3'']" example_state]
  by (simp add: example_cert_def)

section \<open>Event handlers: properties\<close>

text \<open>
  A signal passes the precondition gate when the configuration is valid and the TLS
  information can be constructed; the decorated handler then runs its body.
\<close>

lemma gate_passes:
  assumes "charm_config env = Inr config" and "tls_information env = Inr tls"
  shows "validate_config_and_tls defer block handler env st = handler env st"
  by (simp add: validate_config_and_tls_def assms)

text \<open>
  C5, as stated, fails. The handler is decorated with
  \<^verbatim>\<open>validate_config_and_tls(defer=True, block_on_tls_not_ready=True)\<close> and begins
  with \<^verbatim>\<open>TLSInformation.validate\<close>: when the TLS information cannot be
  constructed, an event with the reason \<^verbatim>\<open>revoked\<close> is deferred, the certificate is
  not handed to the TLS service, and the status is left as it was.
\<close>

theorem on_certificate_invalidated_counterexample:
  "on_certificate_invalidated ''svc.example.com:CERT-1'' ''revoked''
      (example_env [1] [] (Inl ''Relation or relation data not ready.'') []) example_state
     = Inr (example_state\<lparr>calls := [EventDefer]\<rparr>)"
  by (simp add: on_certificate_invalidated_def validate_config_and_tls_def example_env_def
      example_state_def)

text \<open>
  What the two decorated handlers return on a signal that passes the gate.
\<close>

lemma on_certificate_invalidated_result:
  assumes cfg: "charm_config env = Inr config" and tls: "tls_information env = Inr tls"
  shows "on_certificate_invalidated cert reason env st =
     Inr (st\<lparr>calls := calls st
                @ (if reason = ''revoked'' then [TlsCertificateInvalidated cert] else [])
                @ (if reason = ''expired'' then [TlsCertificateExpiring cert] else []),
            unit_status := MaintenanceStatus
              (''Waiting for new certificate for hostname: ''
                 @ get_hostname_from_cert env cert)\<rparr>)"
proof -
  have "on_certificate_invalidated cert reason env st =
      on_certificate_invalidated_body cert reason env st"
    unfolding on_certificate_invalidated_def by (rule gate_passes [OF cfg tls])
  then show ?thesis
    by (simp add: on_certificate_invalidated_body_def tls Let_def)
qed

lemma on_certificate_expiring_result:
  assumes cfg: "charm_config env = Inr config" and tls: "tls_information env = Inr tls"
  shows "on_certificate_expiring cert env st =
     Inr (st\<lparr>calls := calls st @ [TlsCertificateExpiring cert],
            unit_status := MaintenanceStatus
              (''Waiting for new certificate for hostname: ''
                 @ get_hostname_from_cert env cert)\<rparr>)"
proof -
  have "on_certificate_expiring cert env st = on_certificate_expiring_body cert env st"
    unfolding on_certificate_expiring_def by (rule gate_passes [OF cfg tls])
  then show ?thesis
    by (simp add: on_certificate_expiring_body_def tls Let_def)
qed

text \<open>
  C5, amended. On a certificate-invalidated event that passes the configuration and TLS
  precondition gate, the handler returns with the maintenance status that names the
  hostname of the certificate, and: with the reason \<^verbatim>\<open>revoked\<close> its only call is
  the TLS service's \<^verbatim>\<open>certificate_invalidated\<close> on the certificate, by which the
  certificate is dropped from the tracked ones and a fresh private key and signing
  request are issued for its hostname, nothing being marked expiring; with the reason
  \<^verbatim>\<open>expired\<close> it returns what the certificate-expiring handler returns on the same
  certificate, its only call being \<^verbatim>\<open>certificate_expiring\<close>, which marks the
  certificate expiring and neither drops, revokes nor requests anything; with any other
  reason it makes no call, the TLS service is untouched and only the status changes.
\<close>

theorem on_certificate_invalidated_by_reason:
  assumes cfg: "charm_config env = Inr config" and tls: "tls_information env = Inr tls"
  shows "\<exists>st'. on_certificate_invalidated cert reason env st = Inr st'
     \<and> unit_status st' = MaintenanceStatus
          (''Waiting for new certificate for hostname: '' @ get_hostname_from_cert env cert)
     \<and> (reason = ''revoked'' \<longrightarrow>
          issued st st' = [TlsCertificateInvalidated cert]
          \<and> (\<exists>s'. tls_service_calls (get_hostname_from_cert env) (issued st st') s = Some s'
                \<and> cert \<notin> set (tracked s')
                \<and> requests s' = requests s @
                     [GeneratePrivateKey (get_hostname_from_cert env cert),
                      RequestCertificate (get_hostname_from_cert env cert)]
                \<and> marked_expiring s' = marked_expiring s))
     \<and> (reason = ''expired'' \<longrightarrow>
          on_certificate_invalidated cert reason env st = on_certificate_expiring cert env st
          \<and> issued st st' = [TlsCertificateExpiring cert]
          \<and> tls_service_calls (get_hostname_from_cert env) (issued st st') s =
              Some (s\<lparr>marked_expiring := cert # marked_expiring s\<rparr>))
     \<and> (reason \<noteq> ''revoked'' \<and> reason \<noteq> ''expired'' \<longrightarrow>
          st' = st\<lparr>unit_status := MaintenanceStatus
                  (''Waiting for new certificate for hostname: ''
                     @ get_hostname_from_cert env cert)\<rparr>
          \<and> issued st st' = []
          \<and> tls_service_calls (get_hostname_from_cert env) (issued st st') s = Some s)"
proof -
  let ?st' = "st\<lparr>calls := calls st
                @ (if reason = ''revoked'' then [TlsCertificateInvalidated cert] else [])
                @ (if reason = ''expired'' then [TlsCertificateExpiring cert] else []),
            unit_status := MaintenanceStatus
              (''Waiting for new certificate for hostname: ''
                 @ get_hostname_from_cert env cert)\<rparr>"
  have r: "on_certificate_invalidated cert reason env st = Inr ?st'"
    by (rule on_certificate_invalidated_result [OF cfg tls])
  have i: "issued st ?st' =
      (if reason = ''revoked'' then [TlsCertificateInvalidated cert] else [])
      @ (if reason = ''expired'' then [TlsCertificateExpiring cert] else [])"
    by (simp add: issued_def)
  have status: "unit_status ?st' = MaintenanceStatus
          (''Waiting for new certificate for hostname: '' @ get_hostname_from_cert env cert)"
    by simp
  have revoked: "reason = ''revoked'' \<longrightarrow>
          issued st ?st' = [TlsCertificateInvalidated cert]
          \<and> (\<exists>s'. tls_service_calls (get_hostname_from_cert env) (issued st ?st') s = Some s'
                \<and> cert \<notin> set (tracked s')
                \<and> requests s' = requests s @
                     [GeneratePrivateKey (get_hostname_from_cert env cert),
                      RequestCertificate (get_hostname_from_cert env cert)]
                \<and> marked_expiring s' = marked_expiring s)"
    unfolding i by (simp add: certificate_invalidated_def request_path_def)
  have expired: "reason = ''expired'' \<longrightarrow>
          on_certificate_invalidated cert reason env st = on_certificate_expiring cert env st
          \<and> issued st ?st' = [TlsCertificateExpiring cert]
          \<and> tls_service_calls (get_hostname_from_cert env) (issued st ?st') s =
              Some (s\<lparr>marked_expiring := cert # marked_expiring s\<rparr>)"
    unfolding i r on_certificate_expiring_result [OF cfg tls]
    by (simp add: certificate_expiring_def)
  have other: "reason \<noteq> ''revoked'' \<and> reason \<noteq> ''expired'' \<longrightarrow>
          ?st' = st\<lparr>unit_status := MaintenanceStatus
                  (''Waiting for new certificate for hostname: ''
                     @ get_hostname_from_cert env cert)\<rparr>
          \<and> issued st ?st' = []
          \<and> tls_service_calls (get_hostname_from_cert env) (issued st ?st') s = Some s"
    unfolding i by simp
  from r status revoked expired other show ?thesis by blast
qed

theorem on_certificate_invalidated_by_reason_witness:
  "(\<exists>st'. on_certificate_invalidated ''svc.example.com:CERT-1'' ''revoked''
         (example_env [1] [] (Inr \<lparr>external_hostname = ''svc.example.com''\<rparr>) [])
         example_state = Inr st'
      \<and> unit_status st' =
          MaintenanceStatus ''Waiting for new certificate for hostname: svc.example.com''
      \<and> calls st' = [TlsCertificateInvalidated ''svc.example.com:CERT-1'']
      \<and> tls_service_calls (takeWhile (\<lambda>c. c \<noteq> CHR '':'')) (calls st') example_service
          = Some \<lparr>tracked = [], marked_expiring = [],
                  requests = [GeneratePrivateKey ''svc.example.com'',
                              RequestCertificate ''svc.example.com'']\<rparr>)
   \<and> (\<exists>st'. on_certificate_invalidated ''svc.example.com:CERT-1'' ''expired''
         (example_env [1] [] (Inr \<lparr>external_hostname = ''svc.example.com''\<rparr>) [])
         example_state = Inr st'
      \<and> unit_status st' =
          MaintenanceStatus ''Waiting for new certificate for hostname: svc.example.com''
      \<and> calls st' = [TlsCertificateExpiring ''svc.example.com:CERT-1'']
      \<and> tls_service_calls (takeWhile (\<lambda>c. c \<noteq> CHR '':'')) (calls st') example_service
          = Some \<lparr>tracked = [''svc.example.com:CERT-1''],
                  marked_expiring = [''svc.example.com:CERT-1''], requests = []\<rparr>)
   \<and> (\<exists>st'. on_certificate_invalidated ''svc.example.com:CERT-1'' ''superseded''
         (example_env [1] [] (Inr \<lparr>external_hostname = ''svc.example.com''\<rparr>) [])
         example_state = Inr st'
      \<and> unit_status st' =
          MaintenanceStatus ''Waiting for new certificate for hostname: svc.example.com''
      \<and> calls st' = []
      \<and> tls_service_calls (takeWhile (\<lambda>c. c \<noteq> CHR '':'')) (calls st') example_service
          = Some example_service)"
proof -
  let ?e = "example_env [1] [] (Inr \<lparr>external_hostname = ''svc.example.com''\<rparr>) []"
  have c: "charm_config ?e = Inr ()"
    and t: "tls_information ?e = Inr \<lparr>external_hostname = ''svc.example.com''\<rparr>"
    by (simp_all add: example_env_def)
  have g: "get_hostname_from_cert ?e = takeWhile (\<lambda>c. c \<noteq> CHR '':'')"
    by (simp add: example_env_def)
  have i: "\<And>st'. issued example_state st' = calls st'"
    by (simp add: issued_def example_state_def)
  note th = on_certificate_invalidated_by_reason
      [OF c t, where st = example_state and s = example_service
         and cert = "''svc.example.com:CERT-1''", unfolded g i]
  have revoked: "\<exists>st'. on_certificate_invalidated ''svc.example.com:CERT-1'' ''revoked''
         ?e example_state = Inr st'
      \<and> unit_status st' =
          MaintenanceStatus ''Waiting for new certificate for hostname: svc.example.com''
      \<and> calls st' = [TlsCertificateInvalidated ''svc.example.com:CERT-1'']
      \<and> tls_service_calls (takeWhile (\<lambda>c. c \<noteq> CHR '':'')) (calls st') example_service
          = Some \<lparr>tracked = [], marked_expiring = [],
                  requests = [GeneratePrivateKey ''svc.example.com'',
                              RequestCertificate ''svc.example.com'']\<rparr>"
    using th [where reason = "''revoked''"]
    by (auto simp: example_service_def certificate_invalidated_def request_path_def
        certificate_expiring_def)
  have expired: "\<exists>st'. on_certificate_invalidated ''svc.example.com:CERT-1'' ''expired''
         ?e example_state = Inr st'
      \<and> unit_status st' =
          MaintenanceStatus ''Waiting for new certificate for hostname: svc.example.com''
      \<and> calls st' = [TlsCertificateExpiring ''svc.example.com:CERT-1'']
      \<and> tls_service_calls (takeWhile (\<lambda>c. c \<noteq> CHR '':'')) (calls st') example_service
          = Some \<lparr>tracked = [''svc.example.com:CERT-1''],
                  marked_expiring = [''svc.example.com:CERT-1''], requests = []\<rparr>"
    using th [where reason = "''expired''"]
    by (auto simp: example_service_def certificate_invalidated_def request_path_def
        certificate_expiring_def)
  have other: "\<exists>st'. on_certificate_invalidated ''svc.example.com:CERT-1'' ''superseded''
         ?e example_state = Inr st'
      \<and> unit_status st' =
          MaintenanceStatus ''Waiting for new certificate for hostname: svc.example.com''
      \<and> calls st' = []
      \<and> tls_service_calls (takeWhile (\<lambda>c. c \<noteq> CHR '':'')) (calls st') example_service
          = Some example_service"
    using th [where reason = "''superseded''"]
    by auto
  from revoked expired other show ?thesis by blast
qed

text \<open>
  The lookup by hostname finds nothing exactly when no known provider certificate has
  the hostname, and what it finds is a known certificate with that hostname.
\<close>

lemma get_provider_cert_with_hostname_None:
  "(get_provider_cert_with_hostname env hostname = None) =
     (\<forall>c \<in> set (provider_certificates env).
         get_hostname_from_cert env (certificate c) \<noteq> hostname)"
  by (auto simp: get_provider_cert_with_hostname_def find_None_iff)

lemma get_provider_cert_with_hostname_Some:
  assumes "get_provider_cert_with_hostname env hostname = Some pc"
  shows "pc \<in> set (provider_certificates env)
     \<and> get_hostname_from_cert env (certificate pc) = hostname"
proof -
  from assms obtain i where "i < length (provider_certificates env)"
    and "get_hostname_from_cert env (certificate (provider_certificates env ! i)) = hostname"
    and "pc = provider_certificates env ! i"
    unfolding get_provider_cert_with_hostname_def find_Some_iff by blast
  then show ?thesis by simp
qed

text \<open>
  C6, as stated, fails. The provider knows a certificate for the hostname asked for, and
  the lookup finds it, but \<^verbatim>\<open>TLSInformation.validate\<close> raises at the top of the
  handler: the action raises \<^verbatim>\<open>TLSNotReadyError\<close> and returns no certificate.
\<close>

theorem on_get_certificate_action_lookup_counterexample:
  "get_provider_cert_with_hostname
      (example_env [] [] (Inl ''Invalid hostname configuration.'')
         [example_cert ''svc.example.com'' ''1''])
      ''svc.example.com''
     = Some (example_cert ''svc.example.com'' ''1'')
   \<and> on_get_certificate_action [''hostname'' \<mapsto> ''svc.example.com'']
      (example_env [] [] (Inl ''Invalid hostname configuration.'')
         [example_cert ''svc.example.com'' ''1''])
      example_state
     = Inl (TLSNotReadyError ''Invalid hostname configuration.'')"
  by (simp add: on_get_certificate_action_def get_provider_cert_with_hostname_def
      example_env_def example_cert_def)

text \<open>
  C6, amended. When \<^verbatim>\<open>TLSInformation.validate\<close> returns, the get-certificate action,
  given a hostname parameter, sets the results certificate, ca and chain (as PEM) of the
  provider certificate the lookup finds, which is a known certificate with that hostname;
  when the lookup finds none it fails the event with the message
  \<^verbatim>\<open>Missing or incomplete certificate data for <hostname>\<close>; in both cases it returns
  without raising. The lookup finds a certificate exactly when a known provider
  certificate has the hostname, and is absent otherwise.
\<close>

theorem on_get_certificate_action_lookup:
  assumes tls: "tls_information env = Inr tls"
    and param: "params ''hostname'' = Some hostname"
  shows "(\<forall>pc. get_provider_cert_with_hostname env hostname = Some pc \<longrightarrow>
            pc \<in> set (provider_certificates env)
            \<and> get_hostname_from_cert env (certificate pc) = hostname
            \<and> on_get_certificate_action params env st =
                Inr (st\<lparr>calls := calls st @
                       [EventSetResults (certificate pc) (ca pc)
                          (chain_as_pem env (chain pc))]\<rparr>))
     \<and> (get_provider_cert_with_hostname env hostname = None \<longrightarrow>
            on_get_certificate_action params env st =
              Inr (st\<lparr>calls := calls st @
                     [EventFail (''Missing or incomplete certificate data for ''
                                   @ hostname)]\<rparr>))
     \<and> ((\<exists>pc. get_provider_cert_with_hostname env hostname = Some pc) =
          (\<exists>c \<in> set (provider_certificates env).
              get_hostname_from_cert env (certificate c) = hostname))"
proof (intro conjI allI impI)
  fix pc
  assume some: "get_provider_cert_with_hostname env hostname = Some pc"
  from get_provider_cert_with_hostname_Some [OF some]
  show "pc \<in> set (provider_certificates env)"
    and "get_hostname_from_cert env (certificate pc) = hostname"
    by simp_all
  show "on_get_certificate_action params env st =
       Inr (st\<lparr>calls := calls st @
              [EventSetResults (certificate pc) (ca pc) (chain_as_pem env (chain pc))]\<rparr>)"
    by (simp add: on_get_certificate_action_def tls param some)
next
  assume "get_provider_cert_with_hostname env hostname = None"
  then show "on_get_certificate_action params env st =
       Inr (st\<lparr>calls := calls st @
              [EventFail (''Missing or incomplete certificate data for '' @ hostname)]\<rparr>)"
    by (simp add: on_get_certificate_action_def tls param)
next
  show "(\<exists>pc. get_provider_cert_with_hostname env hostname = Some pc) =
          (\<exists>c \<in> set (provider_certificates env).
              get_hostname_from_cert env (certificate c) = hostname)"
    using get_provider_cert_with_hostname_None [of env hostname] by auto
qed

theorem on_get_certificate_action_lookup_witness:
  "on_get_certificate_action [''hostname'' \<mapsto> ''svc.example.com'']
      (example_env [1] [] (Inr \<lparr>external_hostname = ''svc.example.com''\<rparr>)
         [example_cert ''old.example.com'' ''1'', example_cert ''svc.example.com'' ''2''])
      example_state
     = Inr (example_state\<lparr>calls :=
         [EventSetResults ''svc.example.com:CERT-2'' ''CA'' ''CA'']\<rparr>)
   \<and> on_get_certificate_action [''hostname'' \<mapsto> ''other.example.com'']
      (example_env [1] [] (Inr \<lparr>external_hostname = ''svc.example.com''\<rparr>)
         [example_cert ''old.example.com'' ''1'', example_cert ''svc.example.com'' ''2''])
      example_state
     = Inr (example_state\<lparr>calls :=
         [EventFail ''Missing or incomplete certificate data for other.example.com'']\<rparr>)"
proof -
  let ?e = "example_env [1] [] (Inr \<lparr>external_hostname = ''svc.example.com''\<rparr>)
         [example_cert ''old.example.com'' ''1'', example_cert ''svc.example.com'' ''2'']"
  have t: "tls_information ?e = Inr \<lparr>external_hostname = ''svc.example.com''\<rparr>"
    by (simp add: example_env_def)
  have hit: "get_provider_cert_with_hostname ?e ''svc.example.com''
       = Some (example_cert ''svc.example.com'' ''2'')"
    by (simp add: get_provider_cert_with_hostname_def example_env_def example_cert_def)
  have miss: "get_provider_cert_with_hostname ?e ''other.example.com'' = None"
    by (simp add: get_provider_cert_with_hostname_def example_env_def example_cert_def)
  have p1: "[''hostname'' \<mapsto> ''svc.example.com''] ''hostname'' = Some ''svc.example.com''"
    by simp
  have p2: "[''hostname'' \<mapsto> ''other.example.com''] ''hostname''
       = Some ''other.example.com''"
    by simp
  from on_get_certificate_action_lookup
      [where params = "[''hostname'' \<mapsto> ''svc.example.com'']" and st = example_state,
       OF t p1] hit
  have a: "on_get_certificate_action [''hostname'' \<mapsto> ''svc.example.com''] ?e example_state
     = Inr (example_state\<lparr>calls :=
         [EventSetResults ''svc.example.com:CERT-2'' ''CA'' ''CA'']\<rparr>)"
    by (simp add: example_env_def example_cert_def example_state_def)
  from on_get_certificate_action_lookup
      [where params = "[''hostname'' \<mapsto> ''other.example.com'']" and st = example_state,
       OF t p2] miss
  have b: "on_get_certificate_action [''hostname'' \<mapsto> ''other.example.com''] ?e
       example_state
     = Inr (example_state\<lparr>calls :=
         [EventFail ''Missing or incomplete certificate data for other.example.com'']\<rparr>)"
    by (simp add: example_state_def)
  from a b show ?thesis by (rule conjI)
qed

text \<open>
  C8. The claim is that no handler raises an uncaught exception, the get-certificate
  action included when the TLS information cannot be constructed. The action handler is
  not decorated and calls \<^verbatim>\<open>TLSInformation.validate\<close> outside any
  \<^verbatim>\<open>try\<close>: with TLS not ready the exception leaves the handler, no status is set
  and the event is neither answered nor failed.
\<close>

theorem on_get_certificate_action_raises:
  "on_get_certificate_action [''hostname'' \<mapsto> ''svc.example.com'']
      (example_env [] [] (Inl ''Relation or relation data not ready.'') [])
      example_state
     = Inl (TLSNotReadyError ''Relation or relation data not ready.'')"
  by (simp add: on_get_certificate_action_def example_env_def)

text \<open>
  C10. On an ingress data-provided signal that passes the gate, \<^verbatim>\<open>_reconcile\<close>
  returns, and the handler then publishes
  \<^verbatim>\<open>https://<external-hostname>/<model>-<app-name>/\<close> to the relation of the event
  as its last call, whatever mode was resolved: also when the mode is INVALID, in which
  case the pass has only set the blocked status for both relations being present.
\<close>

theorem on_ingress_data_provided_publishes_url:
  assumes cfg: "charm_config env = Inr config" and tls: "tls_information env = Inr tls"
  shows "\<exists>st1. reconcile env st = Inr st1
     \<and> on_ingress_data_provided relation env st =
         Inr (st1\<lparr>calls := calls st1 @
                [PublishUrl relation
                   (''https://'' @ external_hostname tls @ ''/''
                      @ model (ingress_data env relation) @ ''-''
                      @ name (ingress_data env relation) @ ''/'')]\<rparr>)
     \<and> (fst (validate_state env st) = INVALID \<longrightarrow>
           st1 = st\<lparr>unit_status :=
                      BlockedStatus ''Both ingress and reverseproxy is related.''\<rparr>)"
proof -
  have body: "on_ingress_data_provided relation env st =
      on_ingress_data_provided_body relation env st"
    unfolding on_ingress_data_provided_def by (rule gate_passes [OF cfg tls])
  obtain m st0 where v: "validate_state env st = (m, st0)"
    by (cases "validate_state env st")
  have inv: "m = INVALID \<Longrightarrow>
      st0 = st\<lparr>unit_status := BlockedStatus ''Both ingress and reverseproxy is related.''\<rparr>"
    using v by (auto simp: validate_state_def Let_def tls split: if_splits)
  obtain st1 where r: "reconcile env st = Inr st1" and i: "m = INVALID \<longrightarrow> st1 = st0"
    by (cases m) (auto simp: reconcile_def v cfg tls)
  have "on_ingress_data_provided relation env st =
         Inr (st1\<lparr>calls := calls st1 @
                [PublishUrl relation
                   (''https://'' @ external_hostname tls @ ''/''
                      @ model (ingress_data env relation) @ ''-''
                      @ name (ingress_data env relation) @ ''/'')]\<rparr>)"
    unfolding body by (simp add: on_ingress_data_provided_body_def r tls Let_def)
  with r i inv v show ?thesis by auto
qed

theorem on_ingress_data_provided_publishes_url_witness:
  "fst (validate_state
         (example_env [1] [2] (Inr \<lparr>external_hostname = ''svc.example.com''\<rparr>) [])
         example_state) = INVALID
   \<and> on_ingress_data_provided 1
       (example_env [1] [2] (Inr \<lparr>external_hostname = ''svc.example.com''\<rparr>) [])
       example_state
     = Inr \<lparr>unit_status = BlockedStatus ''Both ingress and reverseproxy is related.'',
            calls = [PublishUrl 1 ''https://svc.example.com/prod-web/'']\<rparr>"
proof -
  let ?e = "example_env [1] [2] (Inr \<lparr>external_hostname = ''svc.example.com''\<rparr>) []"
  have c: "charm_config ?e = Inr ()"
    and t: "tls_information ?e = Inr \<lparr>external_hostname = ''svc.example.com''\<rparr>"
    by (simp_all add: example_env_def)
  have v: "fst (validate_state ?e example_state) = INVALID"
    by (simp add: validate_state_def example_env_def)
  from on_ingress_data_provided_publishes_url [OF c t, where st = example_state and relation = 1] v
  have "on_ingress_data_provided 1 ?e example_state
     = Inr \<lparr>unit_status = BlockedStatus ''Both ingress and reverseproxy is related.'',
            calls = [PublishUrl 1 ''https://svc.example.com/prod-web/'']\<rparr>"
    by (auto simp: example_env_def example_state_def)
  with v show ?thesis by simp
qed

end
